theory Spec2Isabelle
  imports Complex_Main
begin

section \<open>JavaScript numbers\<close>

text \<open>
  Every number of the program is a JavaScript \<^verbatim>\<open>number\<close>. The model keeps what the
  program's comparisons can tell apart: \<^verbatim>\<open>NaN\<close>, the two infinities and the finite
  values. Finite values are computed exactly (no rounding, no overflow, one zero).
  A comparison with \<^verbatim>\<open>NaN\<close> on either side is false.
\<close>

datatype jsnum = NaN | NInf | Fin real | PInf

fun js_lt :: "jsnum \<Rightarrow> jsnum \<Rightarrow> bool" where
  "js_lt (Fin x) (Fin y) = (x < y)"
| "js_lt NInf (Fin y) = True"
| "js_lt NInf PInf = True"
| "js_lt (Fin x) PInf = True"
| "js_lt a b = False"

fun js_le :: "jsnum \<Rightarrow> jsnum \<Rightarrow> bool" where
  "js_le (Fin x) (Fin y) = (x \<le> y)"
| "js_le NInf (Fin y) = True"
| "js_le NInf PInf = True"
| "js_le NInf NInf = True"
| "js_le (Fin x) PInf = True"
| "js_le PInf PInf = True"
| "js_le a b = False"

definition js_gt :: "jsnum \<Rightarrow> jsnum \<Rightarrow> bool" where
  "js_gt a b = js_lt b a"

definition js_ge :: "jsnum \<Rightarrow> jsnum \<Rightarrow> bool" where
  "js_ge a b = js_le b a"

text \<open>Strict equality \<^verbatim>\<open>===\<close> on numbers: \<^verbatim>\<open>NaN\<close> equals nothing.\<close>

definition js_eq :: "jsnum \<Rightarrow> jsnum \<Rightarrow> bool" where
  "js_eq a b = (a = b \<and> a \<noteq> NaN)"

definition isNaN :: "jsnum \<Rightarrow> bool" where
  "isNaN a = (a = NaN)"

text \<open>Truthiness of a number: \<^verbatim>\<open>0\<close> and \<^verbatim>\<open>NaN\<close> are falsy.\<close>

definition truthy :: "jsnum \<Rightarrow> bool" where
  "truthy a = (a \<noteq> NaN \<and> a \<noteq> Fin 0)"

fun js_neg :: "jsnum \<Rightarrow> jsnum" where
  "js_neg NaN = NaN"
| "js_neg NInf = PInf"
| "js_neg (Fin x) = Fin (- x)"
| "js_neg PInf = NInf"

fun js_add :: "jsnum \<Rightarrow> jsnum \<Rightarrow> jsnum" where
  "js_add (Fin x) (Fin y) = Fin (x + y)"
| "js_add NaN b = NaN"
| "js_add a NaN = NaN"
| "js_add PInf NInf = NaN"
| "js_add NInf PInf = NaN"
| "js_add PInf b = PInf"
| "js_add NInf b = NInf"
| "js_add a PInf = PInf"
| "js_add a NInf = NInf"

definition js_sub :: "jsnum \<Rightarrow> jsnum \<Rightarrow> jsnum" where
  "js_sub a b = js_add a (js_neg b)"

text \<open>The sign of a number that is not \<^verbatim>\<open>NaN\<close>: \<open>-1\<close>, \<open>0\<close> or \<open>1\<close>.\<close>

fun js_sign :: "jsnum \<Rightarrow> real" where
  "js_sign (Fin x) = sgn x"
| "js_sign PInf = 1"
| "js_sign NInf = - 1"
| "js_sign NaN = 0"

definition inf_of_sign :: "real \<Rightarrow> jsnum" where
  "inf_of_sign s = (if s = 0 then NaN else if 0 < s then PInf else NInf)"

fun js_mul :: "jsnum \<Rightarrow> jsnum \<Rightarrow> jsnum" where
  "js_mul (Fin x) (Fin y) = Fin (x * y)"
| "js_mul NaN b = NaN"
| "js_mul a NaN = NaN"
| "js_mul a b = inf_of_sign (js_sign a * js_sign b)"

fun js_div :: "jsnum \<Rightarrow> jsnum \<Rightarrow> jsnum" where
  "js_div (Fin x) (Fin y) = (if y = 0 then inf_of_sign (sgn x) else Fin (x / y))"
| "js_div NaN b = NaN"
| "js_div a NaN = NaN"
| "js_div (Fin x) b = Fin 0"
| "js_div a (Fin y) = (if y < 0 then js_neg a else a)"
| "js_div a b = NaN"

text \<open>The remainder \<^verbatim>\<open>%\<close> takes the sign of the dividend.\<close>

fun js_mod :: "jsnum \<Rightarrow> jsnum \<Rightarrow> jsnum" where
  "js_mod (Fin x) (Fin y) =
     (if y = 0 then NaN else Fin (x - y * (sgn (x / y) * of_int \<lfloor>\<bar>x / y\<bar>\<rfloor>)))"
| "js_mod (Fin x) PInf = Fin x"
| "js_mod (Fin x) NInf = Fin x"
| "js_mod a b = NaN"

fun js_sin :: "jsnum \<Rightarrow> jsnum" where
  "js_sin (Fin x) = Fin (sin x)"
| "js_sin a = NaN"

fun js_cos :: "jsnum \<Rightarrow> jsnum" where
  "js_cos (Fin x) = Fin (cos x)"
| "js_cos a = NaN"

fun js_sqrt :: "jsnum \<Rightarrow> jsnum" where
  "js_sqrt (Fin x) = (if x < 0 then NaN else Fin (sqrt x))"
| "js_sqrt PInf = PInf"
| "js_sqrt a = NaN"

text \<open>\<^verbatim>\<open>Math.atan2(y, x)\<close> on finite arguments.\<close>

definition atan2 :: "real \<Rightarrow> real \<Rightarrow> real" where
  "atan2 y x =
     (if 0 < x then arctan (y / x)
      else if x < 0 then (if 0 \<le> y then arctan (y / x) + pi else arctan (y / x) - pi)
      else if 0 < y then pi / 2
      else if y < 0 then - (pi / 2)
      else 0)"

fun js_atan2 :: "jsnum \<Rightarrow> jsnum \<Rightarrow> jsnum" where
  "js_atan2 (Fin y) (Fin x) = Fin (atan2 y x)"
| "js_atan2 NaN b = NaN"
| "js_atan2 a NaN = NaN"
| "js_atan2 (Fin y) PInf = Fin 0"
| "js_atan2 (Fin y) NInf = Fin (if 0 \<le> y then pi else - pi)"
| "js_atan2 PInf (Fin x) = Fin (pi / 2)"
| "js_atan2 NInf (Fin x) = Fin (- (pi / 2))"
| "js_atan2 PInf PInf = Fin (pi / 4)"
| "js_atan2 NInf PInf = Fin (- (pi / 4))"
| "js_atan2 PInf NInf = Fin (3 * pi / 4)"
| "js_atan2 NInf NInf = Fin (- (3 * pi / 4))"

section \<open>JavaScript maps and sets\<close>

text \<open>
  A \<^verbatim>\<open>Map\<close> iterates in insertion order: \<^verbatim>\<open>set\<close> on a present key replaces the value in
  place, on a new key appends; \<^verbatim>\<open>delete\<close> removes the entry. A \<^verbatim>\<open>Set\<close> is the list of
  its members in insertion order.
\<close>

type_synonym ('k, 'v) jsmap = "('k \<times> 'v) list"

definition map_get :: "('k, 'v) jsmap \<Rightarrow> 'k \<Rightarrow> 'v option" where
  "map_get m k = map_of m k"

fun map_set :: "'k \<Rightarrow> 'v \<Rightarrow> ('k, 'v) jsmap \<Rightarrow> ('k, 'v) jsmap" where
  "map_set k v [] = [(k, v)]"
| "map_set k v ((k', v') # m) = (if k' = k then (k, v) # m else (k', v') # map_set k v m)"

definition map_delete :: "'k \<Rightarrow> ('k, 'v) jsmap \<Rightarrow> ('k, 'v) jsmap" where
  "map_delete k m = filter (\<lambda>e. fst e \<noteq> k) m"

definition map_keys :: "('k, 'v) jsmap \<Rightarrow> 'k list" where
  "map_keys m = map fst m"

definition map_values :: "('k, 'v) jsmap \<Rightarrow> 'v list" where
  "map_values m = map snd m"

definition set_has :: "'a list \<Rightarrow> 'a \<Rightarrow> bool" where
  "set_has s x = (x \<in> set s)"

definition set_add :: "'a \<Rightarrow> 'a list \<Rightarrow> 'a list" where
  "set_add x s = (if x \<in> set s then s else s @ [x])"

definition set_delete :: "'a \<Rightarrow> 'a list \<Rightarrow> 'a list" where
  "set_delete x s = filter (\<lambda>y. y \<noteq> x) s"

section \<open>Data model (events/event-types.ts, types/config.types.ts)\<close>

datatype AgentStatus = ACTIVE | IDLE | MOVING | STOPPED | UNREACHABLE | OFFLINE

datatype EventType =
  LOCATION_RECEIVED | STATUS_CHANGED | AGENT_UNREACHABLE | AGENT_BACK_ONLINE
| AGENT_IDLE | AGENT_ACTIVE | AGENT_ENTERED_GEOFENCE | AGENT_EXITED_GEOFENCE

text \<open>
  An optional field is an \<open>option\<close>. The free-form \<^verbatim>\<open>metadata\<close> record is never read
  by the program; it is carried as a list of key and value strings.
\<close>

record LocationData =
  agentId :: string
  latitude :: jsnum
  longitude :: jsnum
  timestamp :: jsnum
  speed :: "jsnum option"
  heading :: "jsnum option"
  accuracy :: "jsnum option"
  altitude :: "jsnum option"
  metadata :: "(string \<times> string) list option"

record AgentStateSnapshot =
  snap_agentId :: string
  status :: AgentStatus
  lastLocation :: "LocationData option"
  lastUpdate :: jsnum
  lastMovement :: "jsnum option"
  totalDistanceTraveled :: jsnum
  activeGeofences :: "string list"

record AgentStats =
  totalLocations :: jsnum
  totalDistance :: jsnum
  stats_lastUpdate :: jsnum

datatype Direction = Enter | Exit

text \<open>
  The payloads of \<^verbatim>\<open>EventPayload\<close>, one constructor per interface, the fields in the order
  of their declaration: \<^verbatim>\<open>LocationReceivedPayload\<close> (agentId, location, distanceTraveled,
  speed), \<^verbatim>\<open>StatusChangePayload\<close> (agentId, oldStatus, newStatus, timestamp, reason),
  \<^verbatim>\<open>GeofenceEvent\<close> (agentId, geofenceId, geofenceName, location, timestamp, eventType)
  and \<^verbatim>\<open>AgentStateSnapshot\<close>.
\<close>

datatype EventPayload =
  LocationReceived string LocationData "jsnum option" "jsnum option"
| StatusChange string AgentStatus AgentStatus jsnum "string option"
| GeofenceEv string string string LocationData jsnum Direction
| Snapshot AgentStateSnapshot

record MonitorEvent =
  etype :: EventType
  payload :: EventPayload
  ev_timestamp :: jsnum

record ThresholdConfig =
  idleAfter :: jsnum
  unreachableAfter :: jsnum
  offlineAfter :: jsnum
  minSpeed :: jsnum
  maxJumpDistance :: jsnum

record LocationMonitorConfig =
  thresholds :: ThresholdConfig
  watchdog_enabled :: bool
  watchdog_checkInterval :: jsnum
  geofence_enabled :: bool

definition DEFAULT_THRESHOLDS :: ThresholdConfig where
  "DEFAULT_THRESHOLDS =
     \<lparr>idleAfter = Fin 300000, unreachableAfter = Fin 30000, offlineAfter = Fin 600000,
      minSpeed = Fin 1.5, maxJumpDistance = Fin 300\<rparr>"

definition DEFAULT_CONFIG :: LocationMonitorConfig where
  "DEFAULT_CONFIG =
     \<lparr>thresholds = DEFAULT_THRESHOLDS, watchdog_enabled = True,
      watchdog_checkInterval = Fin 5000, geofence_enabled = True\<rparr>"

text \<open>
  \<^verbatim>\<open>Geofence = CircularGeofence | PolygonGeofence\<close>: id, name, then the center
  (latitude, longitude) and the radius, or the vertices as (latitude, longitude) pairs.
\<close>

datatype Geofence =
  Circular (g_id: string) (g_name: string) (center_latitude: jsnum) (center_longitude: jsnum)
    (radius: jsnum)
| Polygon (g_id: string) (g_name: string) (coordinates: "(jsnum \<times> jsnum) list")

section \<open>Distance calculator (utils/distance-calculator.ts)\<close>

definition EARTH_RADIUS_M :: jsnum where
  "EARTH_RADIUS_M = Fin 6371000"

definition toRadians :: "jsnum \<Rightarrow> jsnum" where
  "toRadians degrees = js_div (js_mul degrees (Fin pi)) (Fin 180)"

definition toDegrees :: "jsnum \<Rightarrow> jsnum" where
  "toDegrees radians = js_div (js_mul radians (Fin 180)) (Fin pi)"

definition calculateDistance :: "jsnum \<Rightarrow> jsnum \<Rightarrow> jsnum \<Rightarrow> jsnum \<Rightarrow> jsnum" where
  "calculateDistance lat1 lon1 lat2 lon2 =
     (let dLat = toRadians (js_sub lat2 lat1);
          dLon = toRadians (js_sub lon2 lon1);
          a = js_add
                (js_mul (js_sin (js_div dLat (Fin 2))) (js_sin (js_div dLat (Fin 2))))
                (js_mul
                  (js_mul
                    (js_mul (js_cos (toRadians lat1)) (js_cos (toRadians lat2)))
                    (js_sin (js_div dLon (Fin 2))))
                  (js_sin (js_div dLon (Fin 2))));
          c = js_mul (Fin 2) (js_atan2 (js_sqrt a) (js_sqrt (js_sub (Fin 1) a)))
      in js_mul EARTH_RADIUS_M c)"

definition calculateBearing :: "jsnum \<Rightarrow> jsnum \<Rightarrow> jsnum \<Rightarrow> jsnum \<Rightarrow> jsnum" where
  "calculateBearing lat1 lon1 lat2 lon2 =
     (let dLon = toRadians (js_sub lon2 lon1);
          y = js_mul (js_sin dLon) (js_cos (toRadians lat2));
          x = js_sub
                (js_mul (js_cos (toRadians lat1)) (js_sin (toRadians lat2)))
                (js_mul
                  (js_mul (js_sin (toRadians lat1)) (js_cos (toRadians lat2)))
                  (js_cos dLon));
          bearing = toDegrees (js_atan2 y x)
      in js_mod (js_add bearing (Fin 360)) (Fin 360))"

definition calculateSpeed :: "jsnum \<Rightarrow> jsnum \<Rightarrow> jsnum" where
  "calculateSpeed distanceMeters timeMs =
     (if js_eq timeMs (Fin 0) then Fin 0
      else let distanceKm = js_div distanceMeters (Fin 1000);
               timeHours = js_div timeMs (Fin (1000 * 60 * 60))
           in js_div distanceKm timeHours)"

definition isValidCoordinate :: "jsnum \<Rightarrow> jsnum \<Rightarrow> bool" where
  "isValidCoordinate lat lon =
     (js_ge lat (Fin (- 90)) \<and> js_le lat (Fin 90) \<and>
      js_ge lon (Fin (- 180)) \<and> js_le lon (Fin 180) \<and>
      \<not> isNaN lat \<and> \<not> isNaN lon)"

definition isAbnormalJump :: "jsnum \<Rightarrow> jsnum \<Rightarrow> jsnum \<Rightarrow> bool" where
  "isAbnormalJump distanceMeters timeMs maxJump =
     (if js_lt timeMs (Fin 1000) then False else js_gt distanceMeters maxJump)"

section \<open>Time utilities (utils/time.utils.ts)\<close>

text \<open>
  \<^verbatim>\<open>now()\<close> reads the clock. Every operation of the model takes the clock's reading as
  its argument \<open>nw\<close>; all calls of \<^verbatim>\<open>now()\<close> inside one operation see that reading.
\<close>

definition isOlderThan :: "real \<Rightarrow> jsnum \<Rightarrow> jsnum \<Rightarrow> bool" where
  "isOlderThan nw ts durationMs = js_gt (js_sub (Fin nw) ts) durationMs"

definition isValidTimestamp :: "real \<Rightarrow> jsnum \<Rightarrow> bool" where
  "isValidTimestamp nw ts =
     (\<not> isNaN ts \<and> js_gt ts (Fin 0) \<and> js_le ts (js_add (Fin nw) (Fin 60000)))"

section \<open>Geo utilities (utils/geo.utils.ts)\<close>

definition isPointInCircle :: "jsnum \<Rightarrow> jsnum \<Rightarrow> Geofence \<Rightarrow> bool" where
  "isPointInCircle lat lon geofence =
     (let distance =
        calculateDistance lat lon (center_latitude geofence) (center_longitude geofence)
      in js_le distance (radius geofence))"

text \<open>
  The ray casting loop runs \<open>i\<close> over the vertices with \<open>j\<close> the vertex before \<open>i\<close>
  (the last vertex for the first): \<open>polygon_loop\<close> is the loop from a vertex \<open>vj\<close> on,
  with \<open>inside\<close> the flag so far. A vertex is (latitude, longitude).
\<close>

definition intersect :: "jsnum \<Rightarrow> jsnum \<Rightarrow> jsnum \<times> jsnum \<Rightarrow> jsnum \<times> jsnum \<Rightarrow> bool" where
  "intersect lat lon vi vj =
     (let xi = snd vi; yi = fst vi; xj = snd vj; yj = fst vj
      in (js_gt yi lat \<noteq> js_gt yj lat) \<and>
         js_lt lon
           (js_add (js_div (js_mul (js_sub xj xi) (js_sub lat yi)) (js_sub yj yi)) xi))"

fun polygon_loop ::
  "jsnum \<Rightarrow> jsnum \<Rightarrow> jsnum \<times> jsnum \<Rightarrow> (jsnum \<times> jsnum) list \<Rightarrow> bool \<Rightarrow> bool" where
  "polygon_loop lat lon vj [] inside = inside"
| "polygon_loop lat lon vj (vi # vs) inside =
     polygon_loop lat lon vi vs (if intersect lat lon vi vj then \<not> inside else inside)"

definition isPointInPolygon :: "jsnum \<Rightarrow> jsnum \<Rightarrow> Geofence \<Rightarrow> bool" where
  "isPointInPolygon lat lon geofence =
     (case coordinates geofence of
        [] \<Rightarrow> False
      | v # vs \<Rightarrow> polygon_loop lat lon (last (v # vs)) (v # vs) False)"

fun isPointInGeofence :: "jsnum \<Rightarrow> jsnum \<Rightarrow> Geofence \<Rightarrow> bool" where
  "isPointInGeofence lat lon (Circular i n clat clon r) =
     isPointInCircle lat lon (Circular i n clat clon r)"
| "isPointInGeofence lat lon (Polygon i n cs) = isPointInPolygon lat lon (Polygon i n cs)"

text \<open>
  \<^verbatim>\<open>validateGeofence\<close> collects error messages; the zone is valid when there is none.
  The loop over the vertices stops at the first bad one.
\<close>

definition out_of_range :: "jsnum \<Rightarrow> jsnum \<Rightarrow> bool" where
  "out_of_range lat lon =
     (js_lt lat (Fin (- 90)) \<or> js_gt lat (Fin 90) \<or>
      js_lt lon (Fin (- 180)) \<or> js_gt lon (Fin 180))"

fun vertex_errors :: "(jsnum \<times> jsnum) list \<Rightarrow> string list" where
  "vertex_errors [] = []"
| "vertex_errors (coord # cs) =
     (if out_of_range (fst coord) (snd coord) then [''Invalid vertex coordinates'']
      else vertex_errors cs)"

fun validateGeofence_errors :: "Geofence \<Rightarrow> string list" where
  "validateGeofence_errors (Circular i n clat clon r) =
     (if i = [] \<or> n = [] then [''Geofence must have id and name''] else []) @
     (if js_le r (Fin 0) then [''Circular geofence radius must be positive''] else []) @
     (if out_of_range clat clon then [''Invalid center coordinates''] else [])"
| "validateGeofence_errors (Polygon i n cs) =
     (if i = [] \<or> n = [] then [''Geofence must have id and name''] else []) @
     (if length cs < 3 then [''Polygon must have at least 3 vertices''] else []) @
     vertex_errors cs"

definition validateGeofence :: "Geofence \<Rightarrow> bool \<times> string list" where
  "validateGeofence geofence =
     (let errors = validateGeofence_errors geofence in (errors = [], errors))"

section \<open>In-memory storage adapter (storage/memory.adapter.ts)\<close>

text \<open>
  Every \<^verbatim>\<open>throw new Error(...)\<close> and every rejected promise of the program is a value of
  \<open>error\<close>: the rejected inputs of the location engine and of the geofence registration
  are \<open>InvalidInput\<close>, the service's \<^verbatim>\<open>ensureInitialized\<close> gives \<open>NotInitialized\<close>, and
  \<open>SubscriberRejected\<close> is the rejection of \<^verbatim>\<open>publishEvent\<close> when the promise returned by
  a subscriber rejects.
\<close>

datatype error = InvalidInput | NotInitialized | SubscriberRejected

text \<open>
  A subscriber is a function of the event it is handed. What matters of a call is how it
  ends: it returns or its promise resolves (\<open>Resolves\<close>), it throws synchronously
  (\<open>Throws\<close>), or it returns a promise that rejects (\<open>Rejects\<close>). A subscriber may keep
  state of its own, so its outcome is a function of the events published before and of
  the event itself. Subscribers are observers: they do not call the service back.
\<close>

datatype Outcome = Resolves | Throws | Rejects

type_synonym Handler = "MonitorEvent list \<Rightarrow> MonitorEvent \<Rightarrow> Outcome"

text \<open>
  The four maps and the subscriber list of \<^verbatim>\<open>MemoryAdapter\<close>. \<open>published\<close> is a history
  variable of the model, not a field of the class: the events passed to
  \<^verbatim>\<open>publishEvent\<close> so far, in order.
\<close>

record MemoryAdapter =
  locations :: "(string, LocationData) jsmap"
  statuses :: "(string, AgentStatus \<times> jsnum) jsmap"
  states :: "(string, AgentStateSnapshot) jsmap"
  stats :: "(string, AgentStats) jsmap"
  eventHandlers :: "Handler list"
  published :: "MonitorEvent list"

definition new_MemoryAdapter :: MemoryAdapter where
  "new_MemoryAdapter =
     \<lparr>locations = [], statuses = [], states = [], stats = [], eventHandlers = [],
      published = []\<rparr>"

definition disconnect :: "MemoryAdapter \<Rightarrow> MemoryAdapter" where
  "disconnect st =
     st\<lparr>locations := [], statuses := [], states := [], stats := [], eventHandlers := []\<rparr>"

definition saveLocation :: "string \<Rightarrow> LocationData \<Rightarrow> MemoryAdapter \<Rightarrow> MemoryAdapter" where
  "saveLocation a location st =
     (let st1 = st\<lparr>locations := map_set a location (locations st)\<rparr>;
          stats0 = (case map_get (stats st1) a of
                      Some x \<Rightarrow> x
                    | None \<Rightarrow> \<lparr>totalLocations = Fin 0, totalDistance = Fin 0,
                                stats_lastUpdate = timestamp location\<rparr>);
          stats1 = stats0\<lparr>totalLocations := js_add (totalLocations stats0) (Fin 1)\<rparr>;
          stats2 = stats1\<lparr>stats_lastUpdate := timestamp location\<rparr>
      in st1\<lparr>stats := map_set a stats2 (stats st1)\<rparr>)"

definition getLastLocation :: "string \<Rightarrow> MemoryAdapter \<Rightarrow> LocationData option" where
  "getLastLocation a st = map_get (locations st) a"

definition saveStatus :: "string \<Rightarrow> AgentStatus \<Rightarrow> jsnum \<Rightarrow> MemoryAdapter \<Rightarrow> MemoryAdapter" where
  "saveStatus a s ts st = st\<lparr>statuses := map_set a (s, ts) (statuses st)\<rparr>"

definition getStatus :: "string \<Rightarrow> MemoryAdapter \<Rightarrow> AgentStatus option" where
  "getStatus a st = (case map_get (statuses st) a of Some d \<Rightarrow> Some (fst d) | None \<Rightarrow> None)"

definition saveAgentState :: "string \<Rightarrow> AgentStateSnapshot \<Rightarrow> MemoryAdapter \<Rightarrow> MemoryAdapter" where
  "saveAgentState a state st = st\<lparr>states := map_set a state (states st)\<rparr>"

definition getAgentState :: "string \<Rightarrow> MemoryAdapter \<Rightarrow> AgentStateSnapshot option" where
  "getAgentState a st = map_get (states st) a"

definition getAllAgents :: "MemoryAdapter \<Rightarrow> string list" where
  "getAllAgents st =
     fold set_add (map_keys (locations st) @ map_keys (statuses st) @ map_keys (states st)) []"

text \<open>
  \<^verbatim>\<open>publishEvent\<close> calls every subscriber with the event, in the order of subscription.
  A synchronous throw is caught and logged, and counts as a resolved promise; then
  \<^verbatim>\<open>await Promise.all\<close> rejects when one of the promises rejects. Every subscriber has
  been handed the event by then, so the event is part of the history in both cases. The
  result is the error of the call, if any, and the adapter after it.
\<close>

definition publishEvent :: "MonitorEvent \<Rightarrow> MemoryAdapter \<Rightarrow> error option \<times> MemoryAdapter" where
  "publishEvent ev st =
     (let promises = map (\<lambda>handler. case handler (published st) ev of
                                       Resolves \<Rightarrow> Resolves
                                     | Throws \<Rightarrow> Resolves
                                     | Rejects \<Rightarrow> Rejects) (eventHandlers st)
      in (if Rejects \<in> set promises then Some SubscriberRejected else None,
          st\<lparr>published := published st @ [ev]\<rparr>))"

definition subscribeEvents :: "Handler \<Rightarrow> MemoryAdapter \<Rightarrow> MemoryAdapter" where
  "subscribeEvents handler st = st\<lparr>eventHandlers := eventHandlers st @ [handler]\<rparr>"

definition unsubscribeEvents :: "MemoryAdapter \<Rightarrow> MemoryAdapter" where
  "unsubscribeEvents st = st\<lparr>eventHandlers := []\<rparr>"

definition getAgentStats :: "string \<Rightarrow> MemoryAdapter \<Rightarrow> AgentStats option" where
  "getAgentStats a st = map_get (stats st) a"

definition clearAgentData :: "string \<Rightarrow> MemoryAdapter \<Rightarrow> MemoryAdapter" where
  "clearAgentData a st =
     st\<lparr>locations := map_delete a (locations st), statuses := map_delete a (statuses st),
        states := map_delete a (states st), stats := map_delete a (stats st)\<rparr>"

section \<open>Awaiting a call that may reject\<close>

text \<open>
  An asynchronous method that returns nothing is a function from the adapter to the error
  it rejects with, if any, and the adapter it leaves. \<open>and_then r f\<close> is
  \<^verbatim>\<open>await r; await f\<close>: when \<open>r\<close> rejects, the caller rejects at once, with the adapter
  as \<open>r\<close> left it, and \<open>f\<close> does not run. \<open>publish_if c ev\<close> is
  \<^verbatim>\<open>if (c) await publishEvent(ev)\<close>, and \<open>returning v r\<close> is \<^verbatim>\<open>await r; return v\<close>.
\<close>

definition and_then ::
  "error option \<times> MemoryAdapter \<Rightarrow> (MemoryAdapter \<Rightarrow> error option \<times> MemoryAdapter) \<Rightarrow>
   error option \<times> MemoryAdapter" where
  "and_then r f = (case fst r of Some e \<Rightarrow> (Some e, snd r) | None \<Rightarrow> f (snd r))"

definition publish_if :: "bool \<Rightarrow> MonitorEvent \<Rightarrow> MemoryAdapter \<Rightarrow> error option \<times> MemoryAdapter" where
  "publish_if c ev st = (if c then publishEvent ev st else (None, st))"

definition returning :: "'a \<Rightarrow> error option \<times> MemoryAdapter \<Rightarrow> (error + 'a) \<times> MemoryAdapter" where
  "returning v r = (case fst r of Some e \<Rightarrow> Inl e | None \<Rightarrow> Inr v, snd r)"

section \<open>Location engine (core/location-engine.ts)\<close>

definition validateInput :: "string \<Rightarrow> jsnum \<Rightarrow> jsnum \<Rightarrow> error option" where
  "validateInput a lat lon =
     (if a = [] then Some InvalidInput
      else if isValidCoordinate lat lon then None
      else Some InvalidInput)"

text \<open>
  The movement metrics against the last known location: speed, heading and the distance
  travelled. The warning logged on an abnormal jump changes nothing and is left out.
\<close>

definition movement_metrics ::
  "LocationData option \<Rightarrow> jsnum \<Rightarrow> jsnum \<Rightarrow> jsnum \<Rightarrow> jsnum option \<times> jsnum option \<times> jsnum" where
  "movement_metrics lastLoc lat lon locationTimestamp =
     (case lastLoc of
        None \<Rightarrow> (None, None, Fin 0)
      | Some l \<Rightarrow>
          (let distanceTraveled = calculateDistance (latitude l) (longitude l) lat lon;
               timeDiff = js_sub locationTimestamp (timestamp l)
           in (if js_gt timeDiff (Fin 0) then Some (calculateSpeed distanceTraveled timeDiff)
               else None,
               if js_gt distanceTraveled (Fin 1)
               then Some (calculateBearing (latitude l) (longitude l) lat lon)
               else None,
               distanceTraveled)))"

text \<open>
  The sample is saved before \<^verbatim>\<open>location.received\<close> is published, so a call that rejects
  there has stored its sample.
\<close>

definition trackLocation ::
  "string \<Rightarrow> jsnum \<Rightarrow> jsnum \<Rightarrow> jsnum option \<Rightarrow> (string \<times> string) list option \<Rightarrow> real \<Rightarrow>
   MemoryAdapter \<Rightarrow> (error + LocationData) \<times> MemoryAdapter" where
  "trackLocation a lat lon ts meta nw st =
     (case validateInput a lat lon of
        Some e \<Rightarrow> (Inl e, st)
      | None \<Rightarrow>
          (let locationTimestamp =
                 (case ts of
                    Some t \<Rightarrow> if truthy t \<and> isValidTimestamp nw t then t else Fin nw
                  | None \<Rightarrow> Fin nw);
               lastLoc = getLastLocation a st;
               m = movement_metrics lastLoc lat lon locationTimestamp;
               locationData =
                 \<lparr>agentId = a, latitude = lat, longitude = lon, timestamp = locationTimestamp,
                  speed = fst m, heading = fst (snd m), accuracy = None, altitude = None,
                  metadata = meta\<rparr>;
               st1 = saveLocation a locationData st
           in returning locationData
                (publishEvent
                   \<lparr>etype = LOCATION_RECEIVED,
                    payload = LocationReceived a locationData (Some (snd (snd m))) (fst m),
                    ev_timestamp = Fin nw\<rparr> st1)))"

section \<open>Status engine (core/status-engine.ts)\<close>

definition determineStatus ::
  "ThresholdConfig \<Rightarrow> LocationData \<Rightarrow> LocationData option \<Rightarrow> AgentStatus" where
  "determineStatus th currentLocation lastLoc =
     (case lastLoc of
        None \<Rightarrow> ACTIVE
      | Some l \<Rightarrow>
          (let timeDiff = js_sub (timestamp currentLocation) (timestamp l)
           in if js_gt timeDiff (unreachableAfter th) then ACTIVE
              else let sp = (case speed currentLocation of
                               Some v \<Rightarrow> if truthy v then v else Fin 0
                             | None \<Rightarrow> Fin 0)
                   in if js_ge sp (minSpeed th) then MOVING else STOPPED))"

definition snapshot_or_minimal ::
  "string \<Rightarrow> AgentStatus \<Rightarrow> jsnum \<Rightarrow> MemoryAdapter \<Rightarrow> EventPayload" where
  "snapshot_or_minimal a newStatus ts st =
     Snapshot (case getAgentState a st of
                 Some state \<Rightarrow> state
               | None \<Rightarrow> \<lparr>snap_agentId = a, status = newStatus, lastLocation = None,
                           lastUpdate = ts, lastMovement = None,
                           totalDistanceTraveled = Fin 0, activeGeofences = []\<rparr>)"

definition emitSpecificStatusEvents ::
  "string \<Rightarrow> AgentStatus \<Rightarrow> AgentStatus \<Rightarrow> jsnum \<Rightarrow> real \<Rightarrow> MemoryAdapter \<Rightarrow>
   error option \<times> MemoryAdapter" where
  "emitSpecificStatusEvents a oldStatus newStatus ts nw st =
     (let pl = snapshot_or_minimal a newStatus ts st
      in and_then
           (and_then
              (and_then
                 (publish_if (newStatus = UNREACHABLE \<and> oldStatus \<noteq> UNREACHABLE)
                    \<lparr>etype = AGENT_UNREACHABLE, payload = pl, ev_timestamp = Fin nw\<rparr> st)
                 (publish_if ((oldStatus = UNREACHABLE \<or> oldStatus = OFFLINE) \<and>
                              (newStatus = ACTIVE \<or> newStatus = MOVING))
                    \<lparr>etype = AGENT_BACK_ONLINE, payload = pl, ev_timestamp = Fin nw\<rparr>))
              (publish_if (newStatus = IDLE \<and> oldStatus \<noteq> IDLE)
                 \<lparr>etype = AGENT_IDLE, payload = pl, ev_timestamp = Fin nw\<rparr>))
           (publish_if (newStatus = ACTIVE \<and> (oldStatus = IDLE \<or> oldStatus = STOPPED))
              \<lparr>etype = AGENT_ACTIVE, payload = pl, ev_timestamp = Fin nw\<rparr>))"

text \<open>
  The new status is saved before \<^verbatim>\<open>status.changed\<close> is published, so it stays saved
  when a subscriber rejects; the specific events are then not published.
\<close>

definition updateStatus ::
  "string \<Rightarrow> AgentStatus \<Rightarrow> AgentStatus \<Rightarrow> jsnum \<Rightarrow> string option \<Rightarrow> real \<Rightarrow>
   MemoryAdapter \<Rightarrow> error option \<times> MemoryAdapter" where
  "updateStatus a oldStatus newStatus ts reason nw st =
     (let st1 = saveStatus a newStatus ts st
      in and_then
           (publishEvent
              \<lparr>etype = STATUS_CHANGED,
               payload = StatusChange a oldStatus newStatus ts reason,
               ev_timestamp = Fin nw\<rparr> st1)
           (emitSpecificStatusEvents a oldStatus newStatus ts nw))"

definition detectStatus ::
  "ThresholdConfig \<Rightarrow> string \<Rightarrow> LocationData \<Rightarrow> real \<Rightarrow> MemoryAdapter \<Rightarrow>
   (error + AgentStatus) \<times> MemoryAdapter" where
  "detectStatus th a location nw st =
     (let currentStatus = getStatus a st;
          lastLoc = getLastLocation a st;
          newStatus = determineStatus th location lastLoc
      in returning newStatus
           (if currentStatus \<noteq> Some newStatus
            then updateStatus a (case currentStatus of Some c \<Rightarrow> c | None \<Rightarrow> ACTIVE)
                   newStatus (timestamp location) None nw st
            else (None, st)))"

definition checkStatusByTime ::
  "ThresholdConfig \<Rightarrow> string \<Rightarrow> real \<Rightarrow> MemoryAdapter \<Rightarrow>
   (error + AgentStatus) \<times> MemoryAdapter" where
  "checkStatusByTime th a nw st =
     (case getAgentState a st of
        None \<Rightarrow> (Inr OFFLINE, st)
      | Some state \<Rightarrow>
          if \<not> truthy (lastUpdate state) then (Inr OFFLINE, st)
          else
            (let currentStatus = status state;
                 s1 = (if isOlderThan nw (lastUpdate state) (unreachableAfter th) \<and>
                          currentStatus \<noteq> UNREACHABLE \<and> currentStatus \<noteq> OFFLINE
                       then UNREACHABLE else currentStatus);
                 s2 = (if isOlderThan nw (lastUpdate state) (offlineAfter th) \<and>
                          currentStatus \<noteq> OFFLINE
                       then OFFLINE else s1);
                 s3 = (if (case lastMovement state of
                             Some lm \<Rightarrow> truthy lm \<and> isOlderThan nw lm (idleAfter th)
                           | None \<Rightarrow> False) \<and>
                          (currentStatus = ACTIVE \<or> currentStatus = MOVING)
                       then IDLE else s2)
             in returning s3
                  (if currentStatus \<noteq> s3
                   then updateStatus a currentStatus s3 (Fin nw) None nw st
                   else (None, st))))"

definition setStatus ::
  "string \<Rightarrow> AgentStatus \<Rightarrow> string option \<Rightarrow> real \<Rightarrow> MemoryAdapter \<Rightarrow>
   error option \<times> MemoryAdapter" where
  "setStatus a s reason nw st =
     (let currentStatus = getStatus a st
      in if currentStatus \<noteq> Some s
         then updateStatus a (case currentStatus of Some c \<Rightarrow> c | None \<Rightarrow> OFFLINE)
                s (Fin nw) reason nw st
         else (None, st))"

section \<open>Geofence engine (core/geo-engine.ts)\<close>

record GeoEngine =
  geofences :: "(string, Geofence) jsmap"
  agentGeofences :: "(string, string list) jsmap"

definition new_GeoEngine :: GeoEngine where
  "new_GeoEngine = \<lparr>geofences = [], agentGeofences = []\<rparr>"

definition registerGeofence :: "Geofence \<Rightarrow> GeoEngine \<Rightarrow> (error + unit) \<times> GeoEngine" where
  "registerGeofence geofence g =
     (if fst (validateGeofence geofence)
      then (Inr (), g\<lparr>geofences := map_set (g_id geofence) geofence (geofences g)\<rparr>)
      else (Inl InvalidInput, g))"

definition removeGeofence :: "string \<Rightarrow> GeoEngine \<Rightarrow> GeoEngine" where
  "removeGeofence geofenceId g =
     g\<lparr>geofences := map_delete geofenceId (geofences g),
       agentGeofences := map (\<lambda>e. (fst e, set_delete geofenceId (snd e))) (agentGeofences g)\<rparr>"

definition getGeofences :: "GeoEngine \<Rightarrow> Geofence list" where
  "getGeofences g = map_values (geofences g)"

definition getGeofence :: "string \<Rightarrow> GeoEngine \<Rightarrow> Geofence option" where
  "getGeofence geofenceId g = map_get (geofences g) geofenceId"

definition emitGeofenceEvent ::
  "Direction \<Rightarrow> string \<Rightarrow> Geofence \<Rightarrow> LocationData \<Rightarrow> real \<Rightarrow> MemoryAdapter \<Rightarrow>
   error option \<times> MemoryAdapter" where
  "emitGeofenceEvent d a geofence location nw st =
     publishEvent
       \<lparr>etype = (case d of Enter \<Rightarrow> AGENT_ENTERED_GEOFENCE | Exit \<Rightarrow> AGENT_EXITED_GEOFENCE),
        payload = GeofenceEv a (g_id geofence) (g_name geofence) location (Fin nw) d,
        ev_timestamp = Fin nw\<rparr> st"

text \<open>
  The loop of \<^verbatim>\<open>checkGeofences\<close> over the entries of the registry, with the set
  \<open>newGeofences\<close> and the adapter so far. The loop ends at the first event whose
  publication rejects, and gives the error.
\<close>

fun checkGeofences_loop ::
  "string \<Rightarrow> LocationData \<Rightarrow> real \<Rightarrow> string list \<Rightarrow> (string \<times> Geofence) list \<Rightarrow>
   string list \<times> MemoryAdapter \<Rightarrow> error option \<times> string list \<times> MemoryAdapter" where
  "checkGeofences_loop a location nw currentGeofences [] acc = (None, acc)"
| "checkGeofences_loop a location nw currentGeofences ((geofenceId, geofence) # rest) acc =
     (let isInside = isPointInGeofence (latitude location) (longitude location) geofence;
          newGeofences = (if isInside then set_add geofenceId (fst acc) else fst acc);
          r = (if isInside
               then (if set_has currentGeofences geofenceId then (None, snd acc)
                     else emitGeofenceEvent Enter a geofence location nw (snd acc))
               else (if set_has currentGeofences geofenceId
                     then emitGeofenceEvent Exit a geofence location nw (snd acc)
                     else (None, snd acc)))
      in case fst r of
           Some e \<Rightarrow> (Some e, newGeofences, snd r)
         | None \<Rightarrow> checkGeofences_loop a location nw currentGeofences rest (newGeofences, snd r))"

text \<open>
  The agent's zones are written after the loop: when the loop rejects, the events it has
  published are out and the agent's zones are as before the call.
\<close>

definition checkGeofences ::
  "string \<Rightarrow> LocationData \<Rightarrow> real \<Rightarrow> GeoEngine \<times> MemoryAdapter \<Rightarrow>
   error option \<times> GeoEngine \<times> MemoryAdapter" where
  "checkGeofences a location nw gs =
     (let g = fst gs;
          currentGeofences = (case map_get (agentGeofences g) a of Some c \<Rightarrow> c | None \<Rightarrow> []);
          r = checkGeofences_loop a location nw currentGeofences (geofences g) ([], snd gs)
      in case fst r of
           Some e \<Rightarrow> (Some e, g, snd (snd r))
         | None \<Rightarrow>
             (None, g\<lparr>agentGeofences := map_set a (fst (snd r)) (agentGeofences g)\<rparr>,
              snd (snd r)))"

definition getAgentGeofences :: "string \<Rightarrow> GeoEngine \<Rightarrow> Geofence list" where
  "getAgentGeofences a g =
     List.map_filter (\<lambda>i. map_get (geofences g) i)
       (case map_get (agentGeofences g) a of Some c \<Rightarrow> c | None \<Rightarrow> [])"

definition isAgentInGeofence :: "string \<Rightarrow> string \<Rightarrow> GeoEngine \<Rightarrow> bool" where
  "isAgentInGeofence a geofenceId g =
     (case map_get (agentGeofences g) a of Some c \<Rightarrow> set_has c geofenceId | None \<Rightarrow> False)"

definition getAgentsInGeofence :: "string \<Rightarrow> GeoEngine \<Rightarrow> string list" where
  "getAgentsInGeofence geofenceId g =
     map fst (filter (\<lambda>e. set_has (snd e) geofenceId) (agentGeofences g))"

definition clearAgentGeofences :: "string \<Rightarrow> GeoEngine \<Rightarrow> GeoEngine" where
  "clearAgentGeofences a g = g\<lparr>agentGeofences := map_delete a (agentGeofences g)\<rparr>"

section \<open>Watchdog (core/watchdog-engine.ts)\<close>

text \<open>
  \<^verbatim>\<open>checkAgent\<close> catches and logs whatever the status check throws, so only the adapter
  the check leaves remains. One sweep checks every known agent; the checks of one sweep
  are taken one after the other, in the order of \<^verbatim>\<open>getAllAgents\<close>.
\<close>

definition checkAgent :: "ThresholdConfig \<Rightarrow> string \<Rightarrow> real \<Rightarrow> MemoryAdapter \<Rightarrow> MemoryAdapter" where
  "checkAgent th a nw st = snd (checkStatusByTime th a nw st)"

definition performCheck :: "ThresholdConfig \<Rightarrow> real \<Rightarrow> MemoryAdapter \<Rightarrow> MemoryAdapter" where
  "performCheck th nw st = fold (\<lambda>a s. checkAgent th a nw s) (getAllAgents st) st"

definition forceCheck :: "ThresholdConfig \<Rightarrow> string \<Rightarrow> real \<Rightarrow> MemoryAdapter \<Rightarrow> MemoryAdapter" where
  "forceCheck th a nw st = checkAgent th a nw st"

section \<open>Service facade (location-monitor.service.ts)\<close>

text \<open>
  The service owns the storage adapter, the geofence engine and the watchdog (its
  \<^verbatim>\<open>isRunning\<close> flag); the location and status engines have no state of their own.
\<close>

record Service =
  storage :: MemoryAdapter
  geoEngine :: GeoEngine
  config :: LocationMonitorConfig
  initialized :: bool
  watchdog_isRunning :: bool

definition new_Service :: "LocationMonitorConfig \<Rightarrow> Service" where
  "new_Service cfg =
     \<lparr>storage = new_MemoryAdapter, geoEngine = new_GeoEngine, config = cfg,
      initialized = False, watchdog_isRunning = False\<rparr>"

definition watchdog_start :: "Service \<Rightarrow> Service" where
  "watchdog_start s =
     (if watchdog_isRunning s then s
      else if watchdog_enabled (config s) then s\<lparr>watchdog_isRunning := True\<rparr>
      else s)"

definition watchdog_stop :: "Service \<Rightarrow> Service" where
  "watchdog_stop s = (if watchdog_isRunning s then s\<lparr>watchdog_isRunning := False\<rparr> else s)"

definition initialize :: "Service \<Rightarrow> Service" where
  "initialize s =
     (if initialized s then s
      else (let s1 = (if watchdog_enabled (config s) then watchdog_start s else s)
            in s1\<lparr>initialized := True\<rparr>))"

definition shutdown :: "Service \<Rightarrow> Service" where
  "shutdown s =
     (let s1 = watchdog_stop s;
          s2 = s1\<lparr>storage := disconnect (storage s1)\<rparr>
      in s2\<lparr>initialized := False\<rparr>)"

definition updateAgentState ::
  "string \<Rightarrow> LocationData \<Rightarrow> AgentStatus \<Rightarrow> real \<Rightarrow> Service \<Rightarrow> Service" where
  "updateAgentState a location st_new nw s =
     (let currentState = getAgentState a (storage s);
          active = map g_id (getAgentGeofences a (geoEngine s));
          newState =
            \<lparr>snap_agentId = a, status = st_new, lastLocation = Some location,
             lastUpdate = Fin nw,
             lastMovement =
               (if (case speed location of Some v \<Rightarrow> truthy v \<and> js_gt v (Fin 0) | None \<Rightarrow> False)
                then Some (Fin nw)
                else (case currentState of Some c \<Rightarrow> lastMovement c | None \<Rightarrow> None)),
             totalDistanceTraveled =
               (case currentState of
                  Some c \<Rightarrow> if truthy (totalDistanceTraveled c) then totalDistanceTraveled c
                            else Fin 0
                | None \<Rightarrow> Fin 0),
             activeGeofences = active\<rparr>
      in s\<lparr>storage := saveAgentState a newState (storage s)\<rparr>)"

text \<open>
  The four steps of the service's \<^verbatim>\<open>trackLocation\<close>. A step that rejects ends the call
  with its error: the steps after it do not run, and what the steps before it and the
  step itself have written stays.
\<close>

definition service_trackLocation ::
  "string \<Rightarrow> jsnum \<Rightarrow> jsnum \<Rightarrow> jsnum option \<Rightarrow> (string \<times> string) list option \<Rightarrow> real \<Rightarrow>
   Service \<Rightarrow> (error + LocationData) \<times> Service" where
  "service_trackLocation a lat lon ts meta nw s =
     (if initialized s then
        (case trackLocation a lat lon ts meta nw (storage s) of
           (Inl e, st) \<Rightarrow> (Inl e, s\<lparr>storage := st\<rparr>)
         | (Inr location, st1) \<Rightarrow>
             (case detectStatus (thresholds (config s)) a location nw st1 of
                (Inl e, st2) \<Rightarrow> (Inl e, s\<lparr>storage := st2\<rparr>)
              | (Inr st_new, st2) \<Rightarrow>
                  (case (if geofence_enabled (config s)
                         then checkGeofences a location nw (geoEngine s, st2)
                         else (None, geoEngine s, st2)) of
                     (Some e, g, st3) \<Rightarrow> (Inl e, s\<lparr>storage := st3, geoEngine := g\<rparr>)
                   | (None, g, st3) \<Rightarrow>
                       (Inr location,
                        updateAgentState a location st_new nw
                          (s\<lparr>storage := st3, geoEngine := g\<rparr>)))))
      else (Inl NotInitialized, s))"

definition service_getLocation :: "string \<Rightarrow> Service \<Rightarrow> error + LocationData option" where
  "service_getLocation a s =
     (if initialized s then Inr (getLastLocation a (storage s)) else Inl NotInitialized)"

definition service_getStatus :: "string \<Rightarrow> Service \<Rightarrow> error + AgentStatus option" where
  "service_getStatus a s =
     (if initialized s then Inr (getStatus a (storage s)) else Inl NotInitialized)"

definition service_getAgentState :: "string \<Rightarrow> Service \<Rightarrow> error + AgentStateSnapshot option" where
  "service_getAgentState a s =
     (if initialized s then Inr (getAgentState a (storage s)) else Inl NotInitialized)"

definition service_getAllAgents :: "Service \<Rightarrow> error + string list" where
  "service_getAllAgents s =
     (if initialized s then Inr (getAllAgents (storage s)) else Inl NotInitialized)"

definition service_getAgentStats :: "string \<Rightarrow> Service \<Rightarrow> error + AgentStats option" where
  "service_getAgentStats a s =
     (if initialized s then Inr (getAgentStats a (storage s)) else Inl NotInitialized)"

definition service_getGeofences :: "Service \<Rightarrow> error + Geofence list" where
  "service_getGeofences s =
     (if initialized s then Inr (getGeofences (geoEngine s)) else Inl NotInitialized)"

definition service_getAgentGeofences :: "string \<Rightarrow> Service \<Rightarrow> error + Geofence list" where
  "service_getAgentGeofences a s =
     (if initialized s then Inr (getAgentGeofences a (geoEngine s)) else Inl NotInitialized)"

definition service_setStatus ::
  "string \<Rightarrow> AgentStatus \<Rightarrow> string option \<Rightarrow> real \<Rightarrow> Service \<Rightarrow> (error + unit) \<times> Service" where
  "service_setStatus a st_new reason nw s =
     (if initialized s
      then (let r = returning () (setStatus a st_new reason nw (storage s))
            in (fst r, s\<lparr>storage := snd r\<rparr>))
      else (Inl NotInitialized, s))"

definition service_registerGeofence :: "Geofence \<Rightarrow> Service \<Rightarrow> (error + unit) \<times> Service" where
  "service_registerGeofence geofence s =
     (if initialized s
      then (let r = registerGeofence geofence (geoEngine s) in (fst r, s\<lparr>geoEngine := snd r\<rparr>))
      else (Inl NotInitialized, s))"

definition service_removeGeofence :: "string \<Rightarrow> Service \<Rightarrow> (error + unit) \<times> Service" where
  "service_removeGeofence geofenceId s =
     (if initialized s
      then (Inr (), s\<lparr>geoEngine := removeGeofence geofenceId (geoEngine s)\<rparr>)
      else (Inl NotInitialized, s))"

definition service_subscribeEvents :: "Handler \<Rightarrow> Service \<Rightarrow> (error + unit) \<times> Service" where
  "service_subscribeEvents handler s =
     (if initialized s
      then (Inr (), s\<lparr>storage := subscribeEvents handler (storage s)\<rparr>)
      else (Inl NotInitialized, s))"

definition service_unsubscribeEvents :: "Service \<Rightarrow> (error + unit) \<times> Service" where
  "service_unsubscribeEvents s =
     (if initialized s
      then (Inr (), s\<lparr>storage := unsubscribeEvents (storage s)\<rparr>)
      else (Inl NotInitialized, s))"

definition service_clearAgentData :: "string \<Rightarrow> Service \<Rightarrow> (error + unit) \<times> Service" where
  "service_clearAgentData a s =
     (if initialized s
      then (Inr (), s\<lparr>storage := clearAgentData a (storage s),
                      geoEngine := clearAgentGeofences a (geoEngine s)\<rparr>)
      else (Inl NotInitialized, s))"

definition service_forceWatchdogCheck :: "string \<Rightarrow> real \<Rightarrow> Service \<Rightarrow> (error + unit) \<times> Service" where
  "service_forceWatchdogCheck a nw s =
     (if initialized s
      then (Inr (), s\<lparr>storage := forceCheck (thresholds (config s)) a nw (storage s)\<rparr>)
      else (Inl NotInitialized, s))"

definition service_forceWatchdogCheckAll :: "real \<Rightarrow> Service \<Rightarrow> (error + unit) \<times> Service" where
  "service_forceWatchdogCheckAll nw s =
     (if initialized s
      then (Inr (), s\<lparr>storage := performCheck (thresholds (config s)) nw (storage s)\<rparr>)
      else (Inl NotInitialized, s))"

text \<open>A tick of the watchdog's timer: a sweep while the watchdog is running.\<close>

definition watchdog_tick :: "real \<Rightarrow> Service \<Rightarrow> Service" where
  "watchdog_tick nw s =
     (if watchdog_isRunning s
      then s\<lparr>storage := performCheck (thresholds (config s)) nw (storage s)\<rparr>
      else s)"

text \<open>
  The operations that can change the service, and a run of them: each step is an
  operation with the clock's reading when it runs. An operation that fails leaves the
  state it returns: the state before for a refused input or a service that is not
  initialized, and what the call had written so far when a subscriber rejects.
\<close>

datatype Operation =
  Initialize
| Shutdown
| TrackLocation string jsnum jsnum "jsnum option" "(string \<times> string) list option"
| SetStatus string AgentStatus "string option"
| RegisterGeofence Geofence
| RemoveGeofence string
| SubscribeEvents Handler
| UnsubscribeEvents
| ClearAgentData string
| ForceWatchdogCheck string
| ForceWatchdogCheckAll
| WatchdogTick

fun step :: "real \<times> Operation \<Rightarrow> Service \<Rightarrow> Service" where
  "step (nw, Initialize) s = initialize s"
| "step (nw, Shutdown) s = shutdown s"
| "step (nw, TrackLocation a lat lon ts meta) s =
     snd (service_trackLocation a lat lon ts meta nw s)"
| "step (nw, SetStatus a st_new reason) s = snd (service_setStatus a st_new reason nw s)"
| "step (nw, RegisterGeofence geofence) s = snd (service_registerGeofence geofence s)"
| "step (nw, RemoveGeofence geofenceId) s = snd (service_removeGeofence geofenceId s)"
| "step (nw, SubscribeEvents handler) s = snd (service_subscribeEvents handler s)"
| "step (nw, UnsubscribeEvents) s = snd (service_unsubscribeEvents s)"
| "step (nw, ClearAgentData a) s = snd (service_clearAgentData a s)"
| "step (nw, ForceWatchdogCheck a) s = snd (service_forceWatchdogCheck a nw s)"
| "step (nw, ForceWatchdogCheckAll) s = snd (service_forceWatchdogCheckAll nw s)"
| "step (nw, WatchdogTick) s = watchdog_tick nw s"

definition run :: "(real \<times> Operation) list \<Rightarrow> Service \<Rightarrow> Service" where
  "run ops s = fold step ops s"

section \<open>Scenarios\<close>

text \<open>A service on the in-memory backend with the default configuration, initialized.\<close>

definition running_service :: Service where
  "running_service = initialize (new_Service DEFAULT_CONFIG)"

text \<open>
  An agent that reports at the origin at time 1000 and a quarter of the equator further
  east at time 2000, each sample with its own timestamp.
\<close>

definition moving_agent :: Service where
  "moving_agent =
     run [(1000, Initialize),
          (1000, TrackLocation ''a'' (Fin 0) (Fin 0) (Some (Fin 1000)) None),
          (2000, TrackLocation ''a'' (Fin 0) (Fin 90) (Some (Fin 2000)) None)]
       (new_Service DEFAULT_CONFIG)"

text \<open>Two circular zones with the same id and different radii.\<close>

definition zone_small :: Geofence where
  "zone_small = Circular ''z'' ''Depot'' (Fin 0) (Fin 0) (Fin 100)"

definition zone_large :: Geofence where
  "zone_large = Circular ''z'' ''Depot'' (Fin 0) (Fin 0) (Fin 200)"

text \<open>
  An agent that reports once at time 1000, is checked by the watchdog at time 50000 and
  reports again from the same place at time 100000.
\<close>

definition sample_at :: "real \<Rightarrow> LocationData" where
  "sample_at t =
     \<lparr>agentId = ''a'', latitude = Fin 0, longitude = Fin 0, timestamp = Fin t, speed = None,
      heading = None, accuracy = None, altitude = None, metadata = None\<rparr>"

definition silent_agent :: Service where
  "silent_agent =
     run [(1000, Initialize),
          (1000, TrackLocation ''a'' (Fin 0) (Fin 0) (Some (Fin 1000)) None),
          (50000, ForceWatchdogCheck ''a'')]
       (new_Service DEFAULT_CONFIG)"

definition returning_agent :: Service where
  "returning_agent =
     run [(100000, TrackLocation ''a'' (Fin 0) (Fin 0) (Some (Fin 100000)) None)] silent_agent"


definition rejecting_subscriber :: Handler where
  "rejecting_subscriber hist ev =
     (if etype ev = AGENT_ENTERED_GEOFENCE then Rejects else Resolves)"




text \<open>
  The same zone on a service with the rejecting subscriber, and an agent that reports
  from the origin twice.
\<close>

definition refused_agent :: Service where
  "refused_agent =
     run [(1000, Initialize),
          (1000, SubscribeEvents rejecting_subscriber),
          (1000, RegisterGeofence zone_small),
          (1000, TrackLocation ''a'' (Fin 0) (Fin 0) (Some (Fin 1000)) None),
          (2000, TrackLocation ''a'' (Fin 0) (Fin 0) (Some (Fin 2000)) None)]
       (new_Service DEFAULT_CONFIG)"

text \<open>
  The same zone and an agent that reports from the origin; then the service is shut down
  and initialized again.
\<close>

definition restarted_agent :: Service where
  "restarted_agent =
     run [(1000, Initialize),
          (1000, RegisterGeofence zone_small),
          (1000, TrackLocation ''a'' (Fin 0) (Fin 0) (Some (Fin 1000)) None),
          (2000, Shutdown),
          (3000, Initialize)]
       (new_Service DEFAULT_CONFIG)"

section \<open>Enter and exit events of an agent and a zone\<close>

text \<open>
  \<open>geofence_trace a z evs\<close> are the directions of the geofence events of \<open>evs\<close> for
  agent \<open>a\<close> and zone \<open>z\<close>, in order. \<open>alternates\<close> is the strict alternation that
  starts with an enter; \<open>alternates_from inside\<close> is the alternation for an agent that is
  inside the zone or not, and \<open>flag_after\<close> says where the agent is after the events.
  \<open>grows a z st st' ds\<close>: the adapter \<open>st'\<close> has published what \<open>st\<close> had and further
  events whose trace is \<open>ds\<close>. \<open>registry_ok\<close>: the registry's keys are distinct and are
  the ids of their zones, and agents are members of registered zones only.
  \<open>zone_delta\<close> is the event \<^verbatim>\<open>checkGeofences\<close> emits for one zone.
  \<open>advances a z s s'\<close>: from \<open>s\<close> to \<open>s'\<close> the service has published further events
  whose trace continues the alternation from where the agent was in \<open>s\<close> and ends where
  the agent is in \<open>s'\<close>.
  \<open>accepts_geofence_events h\<close>: the promise of subscriber \<open>h\<close> never rejects on an enter
  or an exit event, whatever was published before; \<open>geofence_safe st\<close>: every subscriber
  of the adapter is such.
\<close>

definition geofence_direction :: "string \<Rightarrow> string \<Rightarrow> MonitorEvent \<Rightarrow> Direction option" where
  "geofence_direction a z e =
     (case payload e of
        GeofenceEv a' z' n l t d \<Rightarrow> if a' = a \<and> z' = z then Some d else None
      | LocationReceived a' l d v \<Rightarrow> None
      | StatusChange a' old new t r \<Rightarrow> None
      | Snapshot x \<Rightarrow> None)"

definition geofence_trace :: "string \<Rightarrow> string \<Rightarrow> MonitorEvent list \<Rightarrow> Direction list" where
  "geofence_trace a z evs = List.map_filter (geofence_direction a z) evs"










section \<open>Counting accepted samples\<close>

text \<open>
  A \<^verbatim>\<open>trackLocation\<close> call for agent \<open>a\<close> is accepted when its input passes
  \<^verbatim>\<open>validateInput\<close>; \<open>stats_are a k s\<close> says that the stored statistics of \<open>a\<close> count
  \<open>k\<close> samples and no distance (no entry for \<open>k = 0\<close>).
\<close>

fun accepted_sample :: "string \<Rightarrow> real \<times> Operation \<Rightarrow> bool" where
  "accepted_sample a (nw, TrackLocation b lat lon ts meta) =
     (b = a \<and> validateInput b lat lon = None)"
| "accepted_sample a (nw, op) = False"

definition accepted_count :: "string \<Rightarrow> (real \<times> Operation) list \<Rightarrow> nat" where
  "accepted_count a ops = length (filter (accepted_sample a) ops)"

definition stats_are :: "string \<Rightarrow> nat \<Rightarrow> Service \<Rightarrow> bool" where
  "stats_are a k s =
     (case getAgentStats a (storage s) of
        None \<Rightarrow> k = 0
      | Some x \<Rightarrow> 0 < k \<and> totalLocations x = Fin (real k) \<and> totalDistance x = Fin 0)"

section \<open>Evaluation lemmas\<close>

lemmas num_defs = js_gt_def js_ge_def js_sub_def js_eq_def isNaN_def truthy_def

lemmas storage_defs =
  new_MemoryAdapter_def saveLocation_def getLastLocation_def saveStatus_def getStatus_def
  saveAgentState_def getAgentState_def getAgentStats_def publishEvent_def map_get_def

lemmas service_defs =
  running_service_def initialize_def new_Service_def DEFAULT_CONFIG_def
  DEFAULT_THRESHOLDS_def watchdog_start_def new_GeoEngine_def

lemmas await_defs = and_then_def publish_if_def returning_def

lemmas status_defs =
  detectStatus_def determineStatus_def updateStatus_def emitSpecificStatusEvents_def
  snapshot_or_minimal_def await_defs

lemmas track_defs =
  service_trackLocation_def trackLocation_def validateInput_def isValidCoordinate_def
  isValidTimestamp_def movement_metrics_def status_defs checkGeofences_def
  updateAgentState_def getAgentGeofences_def List.map_filter_simps

lemma calculateDistance_same: "calculateDistance (Fin x) (Fin y) (Fin x) (Fin y) = Fin 0"
  by (simp add: calculateDistance_def toRadians_def js_sub_def atan2_def EARTH_RADIUS_M_def
      Let_def)

lemma calculateDistance_quarter:
  "calculateDistance (Fin 0) (Fin 0) (Fin 0) (Fin 90) = Fin (6371000 * pi / 2)"
proof -
  have half: "sin (pi / 4) * sin (pi / 4) = 1 / 2"
    by (simp add: sin_45)
  have angle: "(90::real) * pi / 180 / 2 = pi / 4"
    by simp
  show ?thesis
    unfolding calculateDistance_def toRadians_def js_sub_def EARTH_RADIUS_M_def Let_def
    by (simp add: angle half atan2_def arctan_one del: real_sqrt_divide)
qed

lemma calculateBearing_quarter: "calculateBearing (Fin 0) (Fin 0) (Fin 0) (Fin 90) = Fin 90"
  unfolding calculateBearing_def toRadians_def toDegrees_def js_sub_def Let_def
  by (simp add: atan2_def)

lemma quarter_speed: "1 \<le> 7645200 * pi"
  using pi_ge_two by simp

lemma quarter_distance: "1 < 3185500 * pi"
  using pi_ge_two by simp

section \<open>Maps\<close>

lemma map_get_set_same: "map_get (map_set k v m) k = Some v"
  by (induction m) (auto simp: map_get_def)

lemma map_get_set_other: "k' \<noteq> k \<Longrightarrow> map_get (map_set k v m) k' = map_get m k'"
  by (induction m) (auto simp: map_get_def)

lemma map_get_delete_same: "map_get (map_delete k m) k = None"
  by (induction m) (auto simp: map_get_def map_delete_def)

lemma map_get_delete_other: "k' \<noteq> k \<Longrightarrow> map_get (map_delete k m) k' = map_get m k'"
  by (induction m) (auto simp: map_get_def map_delete_def)


lemma map_delete_fresh: "map_get m k = None \<Longrightarrow> map_delete k m = m"
  by (induction m) (auto simp: map_get_def map_delete_def split: if_splits)

lemma map_delete_set_fresh: "map_get m k = None \<Longrightarrow> map_delete k (map_set k v m) = m"
  by (induction m) (auto simp: map_get_def map_delete_def split: if_splits)

section \<open>Storage and status operations, field by field\<close>

lemma publishEvent_fields [simp]:
  "locations (snd (publishEvent e st)) = locations st"
  "statuses (snd (publishEvent e st)) = statuses st"
  "states (snd (publishEvent e st)) = states st"
  "stats (snd (publishEvent e st)) = stats st"
  "eventHandlers (snd (publishEvent e st)) = eventHandlers st"
  "published (snd (publishEvent e st)) = published st @ [e]"
  by (simp_all add: publishEvent_def Let_def)

lemma publishEvent_no_subscriber: "eventHandlers st = [] \<Longrightarrow> fst (publishEvent e st) = None"
  by (simp add: publishEvent_def)

lemma snd_returning [simp]: "snd (returning v r) = snd r"
  by (simp add: returning_def)

lemma fst_returning: "fst r = None \<Longrightarrow> fst (returning v r) = Inr v"
  by (simp add: returning_def)

lemma and_then_cases:
  "fst (and_then r f) = (case fst r of Some e \<Rightarrow> Some e | None \<Rightarrow> fst (f (snd r)))"
  "snd (and_then r f) = (case fst r of Some e \<Rightarrow> snd r | None \<Rightarrow> snd (f (snd r)))"
  by (simp_all add: and_then_def split: option.splits)

lemma publish_if_fields [simp]:
  "locations (snd (publish_if c e st)) = locations st"
  "statuses (snd (publish_if c e st)) = statuses st"
  "states (snd (publish_if c e st)) = states st"
  "stats (snd (publish_if c e st)) = stats st"
  "eventHandlers (snd (publish_if c e st)) = eventHandlers st"
  by (simp_all add: publish_if_def)

lemma publish_if_no_subscriber: "eventHandlers st = [] \<Longrightarrow> fst (publish_if c e st) = None"
  by (simp add: publish_if_def publishEvent_no_subscriber)

lemma saveStatus_fields [simp]:
  "locations (saveStatus a s ts st) = locations st"
  "statuses (saveStatus a s ts st) = map_set a (s, ts) (statuses st)"
  "states (saveStatus a s ts st) = states st"
  "stats (saveStatus a s ts st) = stats st"
  "eventHandlers (saveStatus a s ts st) = eventHandlers st"
  "published (saveStatus a s ts st) = published st"
  by (simp_all add: saveStatus_def)

lemma emitSpecificStatusEvents_fields [simp]:
  "locations (snd (emitSpecificStatusEvents a old new ts nw st)) = locations st"
  "statuses (snd (emitSpecificStatusEvents a old new ts nw st)) = statuses st"
  "states (snd (emitSpecificStatusEvents a old new ts nw st)) = states st"
  "stats (snd (emitSpecificStatusEvents a old new ts nw st)) = stats st"
  "eventHandlers (snd (emitSpecificStatusEvents a old new ts nw st)) = eventHandlers st"
  by (simp_all add: emitSpecificStatusEvents_def Let_def and_then_cases split: option.splits)

lemma emitSpecificStatusEvents_no_subscriber:
  "eventHandlers st = [] \<Longrightarrow> fst (emitSpecificStatusEvents a old new ts nw st) = None"
  by (simp add: emitSpecificStatusEvents_def Let_def and_then_cases publish_if_no_subscriber
      split: option.splits)

lemma updateStatus_fields [simp]:
  "locations (snd (updateStatus a old new ts reason nw st)) = locations st"
  "statuses (snd (updateStatus a old new ts reason nw st)) = map_set a (new, ts) (statuses st)"
  "states (snd (updateStatus a old new ts reason nw st)) = states st"
  "stats (snd (updateStatus a old new ts reason nw st)) = stats st"
  "eventHandlers (snd (updateStatus a old new ts reason nw st)) = eventHandlers st"
  by (simp_all add: updateStatus_def Let_def and_then_cases split: option.splits)

lemma updateStatus_no_subscriber:
  "eventHandlers st = [] \<Longrightarrow> fst (updateStatus a old new ts reason nw st) = None"
  by (simp add: updateStatus_def Let_def and_then_cases publishEvent_no_subscriber
      emitSpecificStatusEvents_no_subscriber split: option.splits)

lemma getStatus_updateStatus:
  "getStatus a (snd (updateStatus a old new ts reason nw st)) = Some new"
  by (simp add: getStatus_def map_get_set_same)

lemma saveLocation_fields [simp]:
  "locations (saveLocation a l st) = map_set a l (locations st)"
  "statuses (saveLocation a l st) = statuses st"
  "states (saveLocation a l st) = states st"
  "eventHandlers (saveLocation a l st) = eventHandlers st"
  "published (saveLocation a l st) = published st"
  by (simp_all add: saveLocation_def Let_def)

lemma saveAgentState_fields [simp]:
  "locations (saveAgentState a x st) = locations st"
  "statuses (saveAgentState a x st) = statuses st"
  "states (saveAgentState a x st) = map_set a x (states st)"
  "stats (saveAgentState a x st) = stats st"
  "eventHandlers (saveAgentState a x st) = eventHandlers st"
  "published (saveAgentState a x st) = published st"
  by (simp_all add: saveAgentState_def)

lemma trackLocation_fields [simp]:
  "statuses (snd (trackLocation a lat lon ts meta nw st)) = statuses st"
  "states (snd (trackLocation a lat lon ts meta nw st)) = states st"
  "eventHandlers (snd (trackLocation a lat lon ts meta nw st)) = eventHandlers st"
  by (simp_all add: trackLocation_def Let_def split: option.splits)

lemma detectStatus_fields [simp]:
  "locations (snd (detectStatus th a l nw st)) = locations st"
  "states (snd (detectStatus th a l nw st)) = states st"
  "stats (snd (detectStatus th a l nw st)) = stats st"
  "eventHandlers (snd (detectStatus th a l nw st)) = eventHandlers st"
  by (simp_all add: detectStatus_def Let_def)

lemma setStatus_fields [simp]:
  "locations (snd (setStatus a x reason nw st)) = locations st"
  "states (snd (setStatus a x reason nw st)) = states st"
  "stats (snd (setStatus a x reason nw st)) = stats st"
  "eventHandlers (snd (setStatus a x reason nw st)) = eventHandlers st"
  by (simp_all add: setStatus_def Let_def)

lemma checkStatusByTime_fields [simp]:
  "locations (snd (checkStatusByTime th a nw st)) = locations st"
  "states (snd (checkStatusByTime th a nw st)) = states st"
  "stats (snd (checkStatusByTime th a nw st)) = stats st"
  "eventHandlers (snd (checkStatusByTime th a nw st)) = eventHandlers st"
  by (simp_all add: checkStatusByTime_def Let_def split: option.splits)

lemma checkAgent_fields [simp]:
  "locations (checkAgent th a nw st) = locations st"
  "states (checkAgent th a nw st) = states st"
  "stats (checkAgent th a nw st) = stats st"
  "eventHandlers (checkAgent th a nw st) = eventHandlers st"
  by (simp_all add: checkAgent_def)

lemma sweep_fields [simp]:
  "locations (fold (\<lambda>a s. checkAgent th a nw s) as st) = locations st"
  "states (fold (\<lambda>a s. checkAgent th a nw s) as st) = states st"
  "stats (fold (\<lambda>a s. checkAgent th a nw s) as st) = stats st"
  "eventHandlers (fold (\<lambda>a s. checkAgent th a nw s) as st) = eventHandlers st"
  by (induction as arbitrary: st) simp_all

lemma emitGeofenceEvent_fields [simp]:
  "locations (snd (emitGeofenceEvent d a g l nw st)) = locations st"
  "statuses (snd (emitGeofenceEvent d a g l nw st)) = statuses st"
  "states (snd (emitGeofenceEvent d a g l nw st)) = states st"
  "stats (snd (emitGeofenceEvent d a g l nw st)) = stats st"
  "eventHandlers (snd (emitGeofenceEvent d a g l nw st)) = eventHandlers st"
  by (simp_all add: emitGeofenceEvent_def)

lemma checkGeofences_loop_frame:
  "locations (snd (snd (checkGeofences_loop a l nw cur es acc))) = locations (snd acc) \<and>
   statuses (snd (snd (checkGeofences_loop a l nw cur es acc))) = statuses (snd acc) \<and>
   states (snd (snd (checkGeofences_loop a l nw cur es acc))) = states (snd acc) \<and>
   stats (snd (snd (checkGeofences_loop a l nw cur es acc))) = stats (snd acc) \<and>
   eventHandlers (snd (snd (checkGeofences_loop a l nw cur es acc))) = eventHandlers (snd acc)"
  by (induction es arbitrary: acc) (auto simp: Let_def split: option.splits)

lemma checkGeofences_loop_fields [simp]:
  "locations (snd (snd (checkGeofences_loop a l nw cur es acc))) = locations (snd acc)"
  "statuses (snd (snd (checkGeofences_loop a l nw cur es acc))) = statuses (snd acc)"
  "states (snd (snd (checkGeofences_loop a l nw cur es acc))) = states (snd acc)"
  "stats (snd (snd (checkGeofences_loop a l nw cur es acc))) = stats (snd acc)"
  "eventHandlers (snd (snd (checkGeofences_loop a l nw cur es acc))) = eventHandlers (snd acc)"
  using checkGeofences_loop_frame [of a l nw cur es acc] by simp_all

lemma checkGeofences_fields [simp]:
  "locations (snd (snd (checkGeofences a l nw gs))) = locations (snd gs)"
  "statuses (snd (snd (checkGeofences a l nw gs))) = statuses (snd gs)"
  "states (snd (snd (checkGeofences a l nw gs))) = states (snd gs)"
  "stats (snd (snd (checkGeofences a l nw gs))) = stats (snd gs)"
  "eventHandlers (snd (snd (checkGeofences a l nw gs))) = eventHandlers (snd gs)"
  by (simp_all add: checkGeofences_def Let_def split: option.splits)

lemma service_trackLocation_frame:
  "initialized (snd (service_trackLocation a lat lon ts meta nw s)) = initialized s"
  "config (snd (service_trackLocation a lat lon ts meta nw s)) = config s"
  "watchdog_isRunning (snd (service_trackLocation a lat lon ts meta nw s)) =
     watchdog_isRunning s"
  by (simp_all add: service_trackLocation_def updateAgentState_def Let_def split_beta
      split: sum.splits option.splits)

lemma service_trackLocation_handlers:
  "eventHandlers (storage (snd (service_trackLocation a lat lon ts meta nw s))) =
     eventHandlers (storage s)"
  by (simp add: service_trackLocation_def updateAgentState_def Let_def split_beta
      split: sum.splits option.splits)

lemma service_trackLocation_stats:
  "stats (storage (snd (service_trackLocation b lat lon ts meta nw s))) =
     (if initialized s then stats (snd (trackLocation b lat lon ts meta nw (storage s)))
      else stats (storage s))"
  by (simp add: service_trackLocation_def updateAgentState_def Let_def split_beta
      split: sum.splits option.splits)

lemma trackLocation_stats:
  "validateInput b lat lon = None \<Longrightarrow>
   \<exists>l. stats (snd (trackLocation b lat lon ts meta nw st)) = stats (saveLocation b l st)"
  by (simp add: trackLocation_def Let_def) (rule exI, rule refl)

lemma trackLocation_rejected:
  "validateInput b lat lon = Some e \<Longrightarrow> trackLocation b lat lon ts meta nw st = (Inl e, st)"
  by (simp add: trackLocation_def)

lemma stats_saveLocation:
  "map_get (stats (saveLocation b l st)) a =
     (if a = b
      then Some \<lparr>totalLocations =
                   js_add (case map_get (stats st) b of Some x \<Rightarrow> totalLocations x | None \<Rightarrow> Fin 0)
                     (Fin 1),
                 totalDistance =
                   (case map_get (stats st) b of Some x \<Rightarrow> totalDistance x | None \<Rightarrow> Fin 0),
                 stats_lastUpdate = timestamp l\<rparr>
      else map_get (stats st) a)"
  by (auto simp: saveLocation_def Let_def map_get_set_same map_get_set_other
      split: option.splits)

lemma initialized_step: "initialized s \<Longrightarrow> snd op \<noteq> Shutdown \<Longrightarrow> initialized (step op s)"
  by (cases op; cases "snd op")
    (simp_all add: initialize_def service_trackLocation_frame service_setStatus_def
      service_registerGeofence_def service_removeGeofence_def service_subscribeEvents_def
      service_unsubscribeEvents_def service_clearAgentData_def service_forceWatchdogCheck_def
      service_forceWatchdogCheckAll_def watchdog_tick_def Let_def)

lemma stats_are_step:
  assumes "initialized s" and "stats_are a k s"
    and "snd op \<noteq> Shutdown" and "snd op \<noteq> ClearAgentData a"
  shows "stats_are a (if accepted_sample a op then Suc k else k) (step op s)"
proof (cases op)
  case (Pair nw x)
  show ?thesis
  proof (cases x)
    case (TrackLocation b lat lon ts meta)
    show ?thesis
    proof (cases "validateInput b lat lon")
      case None
      from trackLocation_stats [OF this] obtain l where
        "stats (snd (trackLocation b lat lon ts meta nw (storage s))) =
           stats (saveLocation b l (storage s))"
        by blast
      with Pair TrackLocation None assms(1,2) show ?thesis
        by (auto simp: stats_are_def getAgentStats_def service_trackLocation_stats
            stats_saveLocation split: option.splits)
    next
      case (Some e)
      with Pair TrackLocation assms(1,2) show ?thesis
        by (simp add: stats_are_def getAgentStats_def service_trackLocation_stats
            trackLocation_rejected)
    qed
  next
    case (ClearAgentData b)
    with Pair assms show ?thesis
      by (simp add: stats_are_def service_clearAgentData_def getAgentStats_def clearAgentData_def
          map_get_delete_other)
  qed (use Pair assms in \<open>simp_all add: stats_are_def initialize_def service_setStatus_def
      service_registerGeofence_def service_removeGeofence_def service_subscribeEvents_def
      service_unsubscribeEvents_def service_forceWatchdogCheck_def forceCheck_def performCheck_def
      subscribeEvents_def unsubscribeEvents_def
      service_forceWatchdogCheckAll_def watchdog_tick_def getAgentStats_def Let_def\<close>)
qed

lemma stats_are_run:
  assumes "initialized s" and "stats_are a k s"
    and "\<forall>op\<in>set ops. snd op \<noteq> Shutdown \<and> snd op \<noteq> ClearAgentData a"
  shows "stats_are a (k + accepted_count a ops) (run ops s)"
  using assms
proof (induction ops arbitrary: s k)
  case Nil
  then show ?case by (simp add: run_def accepted_count_def)
next
  case (Cons op ops)
  have "stats_are a ((if accepted_sample a op then Suc k else k) + accepted_count a ops)
          (run ops (step op s))"
    using Cons.prems by (intro Cons.IH initialized_step stats_are_step) simp_all
  then show ?case
    by (cases "accepted_sample a op") (simp_all add: run_def accepted_count_def)
qed

section \<open>The scenarios, evaluated\<close>

lemma moving_agent_flags: "initialized moving_agent \<and> config moving_agent = DEFAULT_CONFIG"
  by (simp add: moving_agent_def run_def service_trackLocation_frame service_defs)

lemma moving_agent_handlers: "eventHandlers (storage moving_agent) = []"
  by (simp add: moving_agent_def run_def service_trackLocation_handlers service_defs
      new_MemoryAdapter_def)

lemma moving_agent_snapshot:
  "getAgentState ''a'' (storage moving_agent) =
     Some \<lparr>snap_agentId = ''a'', status = MOVING,
           lastLocation =
             Some \<lparr>agentId = ''a'', latitude = Fin 0, longitude = Fin 90,
                   timestamp = Fin 2000, speed = Some (Fin (11467800 * pi)),
                   heading = Some (Fin 90), accuracy = None, altitude = None,
                   metadata = None\<rparr>,
           lastUpdate = Fin 2000, lastMovement = Some (Fin 2000),
           totalDistanceTraveled = Fin 0, activeGeofences = []\<rparr>"
  by (simp add: moving_agent_def run_def track_defs storage_defs service_defs num_defs Let_def
      calculateDistance_same calculateDistance_quarter calculateBearing_quarter
      calculateSpeed_def quarter_speed quarter_distance)

lemma silent_agent_flags:
  "initialized silent_agent \<and> config silent_agent = DEFAULT_CONFIG \<and>
   geoEngine silent_agent = \<lparr>geofences = [], agentGeofences = [(''a'', [])]\<rparr>"
  by (simp add: silent_agent_def run_def track_defs storage_defs service_defs num_defs Let_def
      service_forceWatchdogCheck_def)

lemma silent_agent_storage:
  "locations (storage silent_agent) = [(''a'', sample_at 1000)] \<and>
   statuses (storage silent_agent) = [(''a'', (UNREACHABLE, Fin 50000))] \<and>
   eventHandlers (storage silent_agent) = [] \<and>
   map etype (published (storage silent_agent)) =
     [LOCATION_RECEIVED, STATUS_CHANGED, STATUS_CHANGED, AGENT_UNREACHABLE]"
  by (simp add: silent_agent_def sample_at_def run_def track_defs storage_defs service_defs
      num_defs Let_def service_forceWatchdogCheck_def forceCheck_def checkAgent_def
      checkStatusByTime_def isOlderThan_def)

lemma zone_small_contains_origin:
  "validateGeofence zone_small = (True, []) \<and> isPointInGeofence (Fin 0) (Fin 0) zone_small"
  by (simp add: zone_small_def validateGeofence_def out_of_range_def isPointInCircle_def
      calculateDistance_same num_defs)




lemmas geofence_defs =
  service_registerGeofence_def registerGeofence_def service_clearAgentData_def
  clearAgentData_def clearAgentGeofences_def service_removeGeofence_def removeGeofence_def
  map_delete_def set_add_def set_has_def set_delete_def emitGeofenceEvent_def

section \<open>Geofence events along a run\<close>

lemma geofence_trace_simps [simp]:
  "geofence_trace a z [] = []"
  "geofence_trace a z (xs @ ys) = geofence_trace a z xs @ geofence_trace a z ys"
  by (simp_all add: geofence_trace_def List.map_filter_def)

lemma geofence_trace_single:
  "geofence_trace a z (e # es) =
     (case geofence_direction a z e of None \<Rightarrow> [] | Some d \<Rightarrow> [d]) @ geofence_trace a z es"
  by (simp add: geofence_trace_def List.map_filter_def split: option.splits)





























lemma geofences_checkGeofences [simp]:
  "geofences (fst (snd (checkGeofences b l nw gs))) = geofences (fst gs)"
  by (simp add: checkGeofences_def Let_def split: option.splits)

















lemma map_get_map_values:
  "map_get (map (\<lambda>e. (fst e, f (snd e))) m) a = map_option f (map_get m a)"
  by (induction m) (auto simp: map_get_def)

lemma isAgentInGeofence_registerGeofence [simp]:
  "isAgentInGeofence a z (snd (registerGeofence gf g)) = isAgentInGeofence a z g"
  by (simp add: isAgentInGeofence_def registerGeofence_def)

lemma isAgentInGeofence_removeGeofence:
  "isAgentInGeofence a z (removeGeofence k g) = (k \<noteq> z \<and> isAgentInGeofence a z g)"
  by (auto simp: isAgentInGeofence_def removeGeofence_def map_get_map_values set_has_def
      set_delete_def split: option.splits)

lemma isAgentInGeofence_clearAgentGeofences:
  "isAgentInGeofence a z (clearAgentGeofences b g) = (b \<noteq> a \<and> isAgentInGeofence a z g)"
  by (cases "b = a")
    (simp_all add: isAgentInGeofence_def clearAgentGeofences_def map_get_delete_same
      map_get_delete_other)






lemma not_recorded_initially: "\<not> isAgentInGeofence a z (geoEngine (new_Service cfg))"
  by (simp add: isAgentInGeofence_def new_Service_def new_GeoEngine_def map_get_def)

lemma not_recorded_after_removeGeofence:
  "initialized s \<Longrightarrow> \<not> isAgentInGeofence a z (geoEngine (step (nw, RemoveGeofence z) s))"
  by (simp add: service_removeGeofence_def isAgentInGeofence_removeGeofence)

lemma not_recorded_after_clearAgentData:
  "initialized s \<Longrightarrow> \<not> isAgentInGeofence a z (geoEngine (step (nw, ClearAgentData a) s))"
  by (simp add: service_clearAgentData_def isAgentInGeofence_clearAgentGeofences)



text \<open>
  A subscriber whose promise rejects on the enter event: the event is out, the call of
  \<^verbatim>\<open>trackLocation\<close> rejects before the agent's zones are written, and the next sample from
  inside the zone publishes the enter again.
\<close>

lemma rejected_enter_is_published_again:
  "fst (service_trackLocation ''a'' (Fin 0) (Fin 0) (Some (Fin 2000)) None 2000
          (run [(1000, Initialize),
                (1000, SubscribeEvents rejecting_subscriber),
                (1000, RegisterGeofence zone_small),
                (1000, TrackLocation ''a'' (Fin 0) (Fin 0) (Some (Fin 1000)) None)]
             (new_Service DEFAULT_CONFIG))) = Inl SubscriberRejected \<and>
   service_getAgentGeofences ''a'' refused_agent = Inr [] \<and>
   geofence_trace ''a'' ''z'' (published (storage refused_agent)) = [Enter, Enter]"
  using zone_small_contains_origin
  by (simp add: refused_agent_def run_def track_defs storage_defs service_defs num_defs Let_def
      geofence_defs geofence_trace_single geofence_direction_def service_subscribeEvents_def
      subscribeEvents_def rejecting_subscriber_def service_getAgentGeofences_def
      calculateDistance_same calculateSpeed_def)
    (simp add: zone_small_def)

section \<open>Claims\<close>

text \<open>
  C9. \<^verbatim>\<open>validateGeofence\<close> tests the center of a circular zone with four range
  comparisons only. Each is false for \<^verbatim>\<open>NaN\<close>, so a zone whose center latitude is
  \<^verbatim>\<open>NaN\<close> is reported valid, with no error; \<^verbatim>\<open>isValidCoordinate\<close> rejects the same
  coordinate.
\<close>

theorem validateGeofence_accepts_NaN_center:
  "validateGeofence (Circular ''z'' ''Zone'' NaN (Fin 0) (Fin 100)) = (True, []) \<and>
   isValidCoordinate NaN (Fin 0) = False"
  by (simp add: validateGeofence_def out_of_range_def isValidCoordinate_def num_defs)

text \<open>
  C1. The service saves the new sample before it asks the status engine, so
  \<^verbatim>\<open>detectStatus\<close> reads the new sample itself as the last location: the branch for
  "no prior sample" is never taken and the time difference is \<open>0\<close>. With the default
  thresholds the first sample of a fresh agent is returned with its coordinates and the
  status left behind is \<open>STOPPED\<close>.
\<close>

theorem first_track_leaves_STOPPED:
  "fst (service_trackLocation ''a'' (Fin 40.7128) (Fin (- 74.0060)) None None 1000
          running_service) =
     Inr \<lparr>agentId = ''a'', latitude = Fin 40.7128, longitude = Fin (- 74.0060),
          timestamp = Fin 1000, speed = None, heading = None, accuracy = None,
          altitude = None, metadata = None\<rparr> \<and>
   service_getStatus ''a''
     (snd (service_trackLocation ''a'' (Fin 40.7128) (Fin (- 74.0060)) None None 1000
             running_service)) = Inr (Some STOPPED)"
  by (simp add: service_getStatus_def track_defs storage_defs service_defs num_defs Let_def)

text \<open>
  C3. \<^verbatim>\<open>setStatus\<close> compares the stored status, absent for a fresh agent, with the
  requested one, and only then replaces the absent status by \<open>OFFLINE\<close>. Setting a
  fresh agent to \<open>OFFLINE\<close> publishes a \<^verbatim>\<open>status.changed\<close> event whose old and new
  status are both \<open>OFFLINE\<close>.
\<close>

theorem setStatus_publishes_unchanged_status:
  "service_getStatus ''a'' running_service = Inr None \<and>
   published (storage (snd (service_setStatus ''a'' OFFLINE None 1000 running_service))) =
     [\<lparr>etype = STATUS_CHANGED, payload = StatusChange ''a'' OFFLINE OFFLINE (Fin 1000) None,
       ev_timestamp = Fin 1000\<rparr>]"
  by (simp add: service_getStatus_def service_setStatus_def setStatus_def status_defs
      storage_defs service_defs Let_def)

text \<open>
  C4. In \<^verbatim>\<open>checkStatusByTime\<close> the idle test comes after the offline test and looks at
  the snapshot's status only. For the agent of \<open>moving_agent\<close> (status \<open>MOVING\<close>, last
  update and last movement at time 2000), checked at time 1000000 with the default
  thresholds, the last update is older than \<^verbatim>\<open>offlineAfter\<close> and the result is \<open>IDLE\<close>.
\<close>

theorem silent_moving_agent_becomes_IDLE:
  "fst (checkStatusByTime DEFAULT_THRESHOLDS ''a'' 1000000 (storage moving_agent)) = Inr IDLE \<and>
   service_getStatus ''a'' (snd (service_forceWatchdogCheck ''a'' 1000000 moving_agent)) =
     Inr (Some IDLE)"
  by (simp add: service_getStatus_def service_forceWatchdogCheck_def forceCheck_def
      checkAgent_def moving_agent_flags checkStatusByTime_def moving_agent_snapshot
      isOlderThan_def DEFAULT_CONFIG_def DEFAULT_THRESHOLDS_def num_defs Let_def
      getStatus_updateStatus fst_returning updateStatus_no_subscriber moving_agent_handlers)

text \<open>
  C7 as stated fails when a zone with the same id is already registered: registering
  overwrites it and removing deletes the entry, so the earlier zone is gone.
\<close>

theorem register_then_remove_loses_overwritten_zone:
  "getGeofences (snd (registerGeofence zone_small new_GeoEngine)) = [zone_small] \<and>
   getGeofences
     (removeGeofence (g_id zone_large)
        (snd (registerGeofence zone_large (snd (registerGeofence zone_small new_GeoEngine)))))
     = []"
  by (simp add: getGeofences_def removeGeofence_def registerGeofence_def validateGeofence_def
      out_of_range_def new_GeoEngine_def zone_small_def zone_large_def map_values_def
      map_delete_def num_defs)

text \<open>
  C7, amended. When no zone with the id of \<open>z\<close> is registered, registering \<open>z\<close> (accepted
  or rejected) and then removing its id leaves \<^verbatim>\<open>getGeofences\<close> as it was.
\<close>

theorem register_then_remove_fresh_id:
  assumes "getGeofence (g_id z) g = None"
  shows "getGeofences (removeGeofence (g_id z) (snd (registerGeofence z g))) = getGeofences g"
  using assms
  by (simp add: getGeofence_def getGeofences_def removeGeofence_def registerGeofence_def
      map_delete_set_fresh map_delete_fresh)

theorem register_then_remove_fresh_id_witness:
  "getGeofence (g_id zone_small) new_GeoEngine = None \<and>
   fst (registerGeofence zone_small new_GeoEngine) = Inr () \<and>
   getGeofences (removeGeofence (g_id zone_small) (snd (registerGeofence zone_small new_GeoEngine)))
     = getGeofences new_GeoEngine"
  using register_then_remove_fresh_id [of zone_small new_GeoEngine]
  by (simp add: getGeofence_def new_GeoEngine_def map_get_def registerGeofence_def
      validateGeofence_def out_of_range_def zone_small_def num_defs)

text \<open>
  C8. On an initialized service, a call of \<^verbatim>\<open>trackLocation\<close> with an empty agent id, or
  with coordinates that are not a finite latitude in \<open>[-90, 90]\<close> and a finite longitude
  in \<open>[-180, 180]\<close>, fails with \<open>InvalidInput\<close> and returns the service as it was: the
  stored location, status, snapshot and statistics, the geofence engine and the
  published events are all unchanged.
\<close>

theorem track_rejects_invalid_input:
  assumes "initialized s"
    and "a = [] \<or>
         (\<nexists>x y. lat = Fin x \<and> lon = Fin y \<and> - 90 \<le> x \<and> x \<le> 90 \<and> - 180 \<le> y \<and> y \<le> 180)"
  shows "service_trackLocation a lat lon ts meta nw s = (Inl InvalidInput, s)"
proof -
  have "validateInput a lat lon = Some InvalidInput"
  proof (cases "a = []")
    case True
    then show ?thesis by (simp add: validateInput_def)
  next
    case False
    with assms(2) have "\<not> isValidCoordinate lat lon"
      by (cases lat; cases lon) (auto simp: isValidCoordinate_def num_defs)
    then show ?thesis by (simp add: validateInput_def)
  qed
  with assms(1) show ?thesis
    by (simp add: service_trackLocation_def trackLocation_def)
qed

theorem track_rejects_invalid_input_witness:
  "service_trackLocation ''a'' (Fin 91) (Fin 0) None None 1000 running_service =
     (Inl InvalidInput, running_service) \<and>
   service_trackLocation ''a'' NaN (Fin 0) None None 1000 running_service =
     (Inl InvalidInput, running_service) \<and>
   service_trackLocation [] (Fin 0) (Fin 0) None None 1000 running_service =
     (Inl InvalidInput, running_service)"
  using track_rejects_invalid_input [of running_service "''a''" "Fin 91" "Fin 0" None None 1000]
    track_rejects_invalid_input [of running_service "''a''" NaN "Fin 0" None None 1000]
    track_rejects_invalid_input [of running_service "[]" "Fin 0" "Fin 0" None None 1000]
  by (simp add: service_defs)

text \<open>
  C10 as stated fails for the zones an agent is in. \<^verbatim>\<open>shutdown\<close> disconnects the
  storage and leaves the geofence engine as it is: the agent of \<open>restarted_agent\<close>
  entered the zone before the shutdown, and after the following \<^verbatim>\<open>initialize\<close> its
  location is absent and no agent is known, but \<^verbatim>\<open>getAgentGeofences\<close> still returns the
  zone.
\<close>

theorem shutdown_keeps_zone_membership:
  "service_getAllAgents restarted_agent = Inr [] \<and>
   service_getLocation ''a'' restarted_agent = Inr None \<and>
   service_getAgentGeofences ''a'' restarted_agent = Inr [zone_small]"
  using zone_small_contains_origin
  by (simp add: restarted_agent_def run_def service_getAllAgents_def service_getLocation_def
      service_getAgentGeofences_def getAllAgents_def map_keys_def shutdown_def
      watchdog_stop_def disconnect_def track_defs storage_defs service_defs num_defs Let_def
      geofence_defs)

text \<open>
  C10, amended. \<^verbatim>\<open>disconnect\<close> of the in-memory backend empties the four maps and the
  subscriber list; \<^verbatim>\<open>shutdown\<close> disconnects the storage; after a following
  \<^verbatim>\<open>initialize\<close> the service knows no agent and every read of an agent's location,
  status, snapshot or statistics is absent. The registered zones and the zones each
  agent is in are those of before the shutdown.
\<close>

theorem shutdown_erases_storage_and_keeps_zones:
  "disconnect st =
     \<lparr>locations = [], statuses = [], states = [], stats = [], eventHandlers = [],
      published = published st\<rparr> \<and>
   storage (shutdown s) = disconnect (storage s) \<and>
   service_getAllAgents (initialize (shutdown s)) = Inr [] \<and>
   service_getLocation a (initialize (shutdown s)) = Inr None \<and>
   service_getStatus a (initialize (shutdown s)) = Inr None \<and>
   service_getAgentState a (initialize (shutdown s)) = Inr None \<and>
   service_getAgentStats a (initialize (shutdown s)) = Inr None \<and>
   service_getGeofences (initialize (shutdown s)) = Inr (getGeofences (geoEngine s)) \<and>
   service_getAgentGeofences a (initialize (shutdown s)) =
     Inr (getAgentGeofences a (geoEngine s))"
  by (simp add: disconnect_def shutdown_def watchdog_stop_def initialize_def watchdog_start_def
      service_getAllAgents_def service_getLocation_def service_getStatus_def
      service_getAgentState_def service_getAgentStats_def service_getGeofences_def
      service_getAgentGeofences_def getAllAgents_def map_keys_def
      getLastLocation_def getStatus_def getAgentState_def getAgentStats_def map_get_def Let_def)

text \<open>
  C2. The agent of \<open>silent_agent\<close> has been marked \<open>UNREACHABLE\<close> by the watchdog, and
  its last sample is 99 seconds old, more than \<^verbatim>\<open>unreachableAfter\<close>, when it reports
  again from the same place. The service saves the new sample before it asks the status
  engine, so \<^verbatim>\<open>detectStatus\<close> compares the new sample with itself and never sees the
  gap: the status left behind is \<open>STOPPED\<close> and no \<^verbatim>\<open>agent.back-online\<close> event is
  published.
\<close>

theorem track_after_silent_gap_leaves_STOPPED:
  "service_getStatus ''a'' silent_agent = Inr (Some UNREACHABLE) \<and>
   getLastLocation ''a'' (storage silent_agent) = Some (sample_at 1000) \<and>
   service_getStatus ''a'' returning_agent = Inr (Some STOPPED) \<and>
   map etype (published (storage returning_agent)) =
     [LOCATION_RECEIVED, STATUS_CHANGED, STATUS_CHANGED, AGENT_UNREACHABLE,
      LOCATION_RECEIVED, STATUS_CHANGED]"
  by (simp add: returning_agent_def run_def service_getStatus_def silent_agent_flags
      service_trackLocation_frame track_defs silent_agent_storage getStatus_def
      getLastLocation_def getAgentState_def saveLocation_def saveAgentState_def map_get_def
      publishEvent_def sample_at_def DEFAULT_CONFIG_def DEFAULT_THRESHOLDS_def num_defs Let_def
      calculateDistance_same calculateSpeed_def)

text \<open>
  C6 as stated fails for the distance. The agent of \<open>moving_agent\<close> has two accepted
  samples a quarter of the equator apart; its statistics count two locations and a total
  distance of \<open>0\<close>.
\<close>

theorem stats_totalDistance_stays_zero:
  "getAgentStats ''a'' (storage moving_agent) =
     Some \<lparr>totalLocations = Fin 2, totalDistance = Fin 0, stats_lastUpdate = Fin 2000\<rparr> \<and>
   calculateDistance (Fin 0) (Fin 0) (Fin 0) (Fin 90) = Fin (6371000 * pi / 2) \<and>
   Fin (6371000 * pi / 2) \<noteq> Fin 0"
  by (simp add: moving_agent_def run_def track_defs storage_defs service_defs num_defs Let_def
      calculateDistance_same calculateDistance_quarter calculateBearing_quarter
      calculateSpeed_def quarter_speed quarter_distance)

text \<open>
  C6, amended. Starting from an initialized service that holds no statistics for agent
  \<open>a\<close>, after any operations other than \<^verbatim>\<open>shutdown\<close> and \<^verbatim>\<open>clearAgentData\<close> of \<open>a\<close>, the
  statistics of \<open>a\<close> are absent when no sample of \<open>a\<close> was accepted; otherwise
  \<^verbatim>\<open>totalLocations\<close> is the number of accepted samples and \<^verbatim>\<open>totalDistance\<close> is \<open>0\<close>.
\<close>

theorem stats_count_samples_without_distance:
  assumes "initialized s" and "getAgentStats a (storage s) = None"
    and "\<forall>op\<in>set ops. snd op \<noteq> Shutdown \<and> snd op \<noteq> ClearAgentData a"
  shows "map_option (\<lambda>x. (totalLocations x, totalDistance x))
           (getAgentStats a (storage (run ops s))) =
         (if accepted_count a ops = 0 then None
          else Some (Fin (real (accepted_count a ops)), Fin 0))"
proof -
  have "stats_are a 0 s"
    using assms(2) by (simp add: stats_are_def)
  from stats_are_run [OF assms(1) this assms(3)] show ?thesis
    by (auto simp: stats_are_def split: option.splits)
qed

theorem stats_count_samples_without_distance_witness:
  "initialized running_service \<and>
   getAgentStats ''a'' (storage running_service) = None \<and>
   accepted_count ''a''
     [(1000, TrackLocation ''a'' (Fin 0) (Fin 0) (Some (Fin 1000)) None),
      (2000, TrackLocation ''a'' (Fin 0) (Fin 90) (Some (Fin 2000)) None)] = 2 \<and>
   map_option (\<lambda>x. (totalLocations x, totalDistance x))
     (getAgentStats ''a''
        (storage
           (run [(1000, TrackLocation ''a'' (Fin 0) (Fin 0) (Some (Fin 1000)) None),
                 (2000, TrackLocation ''a'' (Fin 0) (Fin 90) (Some (Fin 2000)) None)]
              running_service))) = Some (Fin 2, Fin 0)"
  using stats_count_samples_without_distance [of running_service "''a''"
      "[(1000, TrackLocation ''a'' (Fin 0) (Fin 0) (Some (Fin 1000)) None),
        (2000, TrackLocation ''a'' (Fin 0) (Fin 90) (Some (Fin 2000)) None)]"]
  by (simp add: accepted_count_def validateInput_def isValidCoordinate_def num_defs
      service_defs getAgentStats_def new_MemoryAdapter_def map_get_def)




end
